theory Spec2Isabelle
  imports Main
begin

section \<open>Errors\<close>

text \<open>
  Every exception the adapter can raise is a value. A missing dictionary key is
  \<open>KeyError\<close>; a failure of the transport (\<open>compose_request\<close>) is \<open>ClientError\<close>;
  a failure of the transaction codec (\<open>Transaction.import_raw\<close>) is \<open>EncodingError\<close>;
  a write refused by the store is \<open>IntegrityError\<close>.
\<close>

datatype error = KeyError | ClientError | EncodingError | IntegrityError

text \<open>Sequencing of two steps, the second of which runs only if the first did not raise.\<close>

definition and_then :: "error + 'a \<Rightarrow> ('a \<Rightarrow> error + 'b) \<Rightarrow> error + 'b" where
  "and_then m f = (case m of Inl e \<Rightarrow> Inl e | Inr x \<Rightarrow> f x)"

text \<open>\<open>d[k]\<close> on a dictionary whose key \<open>k\<close> may be absent.\<close>

definition getitem :: "'a option \<Rightarrow> error + 'a" where
  "getitem v = (case v of None \<Rightarrow> Inl KeyError | Some x \<Rightarrow> Inr x)"

text \<open>
  \<open>xs[:n]\<close>: a negative bound counts from the end of the list.
\<close>

definition slice_to :: "'a list \<Rightarrow> int \<Rightarrow> 'a list" where
  "slice_to xs n = (if 0 \<le> n then take (nat n) xs else take (length xs - nat (- n)) xs)"

section \<open>The provider's payload\<close>

text \<open>
  One entry of \<open>tx['vIn']\<close> and of \<open>tx['vOut']\<close>. Every key may be absent; the
  dictionaries \<open>vIn\<close> and \<open>vOut\<close> are keyed by the decimal string of the index, which the model
  keeps as the index itself (so \<open>int(outp)\<close> and \<open>str(i.index_n)\<close> are the identity), and they
  are association lists in the order the provider sent them.
\<close>

record vin =
  vin_amount :: "int option"

record vout =
  utxo_address :: "string option"
  utxo_spent :: "bool option"
  utxo_value :: "int option"
  utxo_scriptPubKey :: "string option"

text \<open>One transaction item of a page (\<open>tx\<close> in the source).\<close>

record item =
  tx_rawTx :: "string option"
  tx_confirmations :: "int option"
  tx_txId :: "string option"
  tx_hash :: "string option"
  tx_timestamp :: "int option"
  tx_blockTime :: "int option"
  tx_blockHeight :: "int option"
  tx_blockHash :: "string option"
  tx_fee :: "int option"
  tx_size :: "int option"
  tx_vIn :: "(int \<times> vin) list option"
  tx_vOut :: "(int \<times> vout) list option"
  tx_outputsAmount :: "int option"
  tx_inputsAmount :: "int option"

text \<open>\<open>res['data']\<close> of an address-history response.\<close>

record response =
  res_list :: "item list option"
  res_pages :: "int option"

text \<open>
  \<open>compose_request('address', 'transactions', address, variables)\<close>: of the variables only
  \<open>page\<close> changes, so a provider is a function of the address and the page number.
\<close>

type_synonym provider = "string \<Rightarrow> int \<Rightarrow> error + response"

section \<open>The transaction value of the codec\<close>

text \<open>
  The fields of \<open>Transaction\<close>, of its inputs and of its outputs that the adapter reads or
  writes. A date is kept as the timestamp it is made from.
\<close>

record tx_input =
  i_index_n :: int
  i_value :: int

record tx_output =
  o_output_n :: int
  o_spent :: bool

record transaction =
  t_status :: string
  t_hash :: string
  t_date :: "int option"
  t_confirmations :: int
  t_block_height :: "int option"
  t_block_hash :: "string option"
  t_fee :: "int option"
  t_rawtx :: string
  t_size :: int
  t_network :: string
  t_coinbase :: bool
  t_inputs :: "tx_input list"
  t_outputs :: "tx_output list"
  t_input_total :: int
  t_output_total :: int

text \<open>\<open>Transaction.import_raw(rawtx, network=network)\<close>, a parameter of the model.\<close>

type_synonym codec = "string \<Rightarrow> string \<Rightarrow> error + transaction"

section \<open>\<open>_parse_transaction\<close>\<close>

text \<open>\<open>for i in t.inputs: i.value = tx['vIn'][str(i.index_n)]['amount']\<close>\<close>

fun input_values :: "item \<Rightarrow> tx_input list \<Rightarrow> error + tx_input list" where
  "input_values tx [] = Inr []"
| "input_values tx (i # rest) =
     (case and_then (getitem (tx_vIn tx)) (\<lambda>vIn.
           and_then (getitem (map_of vIn (i_index_n i))) (\<lambda>entry.
           getitem (vin_amount entry))) of
        Inl e \<Rightarrow> Inl e
      | Inr a \<Rightarrow>
         (case input_values tx rest of
            Inl e \<Rightarrow> Inl e
          | Inr rest' \<Rightarrow> Inr (i\<lparr>i_value := a\<rparr> # rest')))"

text \<open>\<open>for o in t.outputs: if tx['vOut'][str(o.output_n)]['spent']: o.spent = True\<close>\<close>

fun output_spent :: "item \<Rightarrow> tx_output list \<Rightarrow> error + tx_output list" where
  "output_spent tx [] = Inr []"
| "output_spent tx (o1 # rest) =
     (case and_then (getitem (tx_vOut tx)) (\<lambda>vOut.
           and_then (getitem (map_of vOut (o_output_n o1))) (\<lambda>entry.
           getitem (utxo_spent entry))) of
        Inl e \<Rightarrow> Inl e
      | Inr spent \<Rightarrow>
         (case output_spent tx rest of
            Inl e \<Rightarrow> Inl e
          | Inr rest' \<Rightarrow> Inr ((if spent then o1\<lparr>o_spent := True\<rparr> else o1) # rest')))"

definition parse_transaction :: "codec \<Rightarrow> string \<Rightarrow> item \<Rightarrow> error + transaction" where
  "parse_transaction import_raw network tx =
     and_then (getitem (tx_rawTx tx)) (\<lambda>rawTx.
     and_then (import_raw rawTx network) (\<lambda>t0.
     and_then (getitem (tx_confirmations tx)) (\<lambda>confirmations.
     and_then (getitem (tx_txId tx)) (\<lambda>txId.
     and_then (case tx_blockHeight tx of
                 None \<Rightarrow> Inr (t_block_height t0, t_block_hash t0)
               | Some h \<Rightarrow> and_then (getitem (tx_blockHash tx)) (\<lambda>bh. Inr (Some h, Some bh)))
       (\<lambda>(block_height, block_hash).
     and_then (getitem (tx_fee tx)) (\<lambda>fee.
     and_then (getitem (tx_size tx)) (\<lambda>size.
     and_then (if t_coinbase t0 then Inr (t_inputs t0) else input_values tx (t_inputs t0))
       (\<lambda>inputs.
     and_then (output_spent tx (t_outputs t0)) (\<lambda>outputs.
     and_then (if t_coinbase t0
               then and_then (getitem (tx_outputsAmount tx)) (\<lambda>oa. Inr (oa - fee))
               else getitem (tx_inputsAmount tx)) (\<lambda>input_total.
     and_then (getitem (tx_outputsAmount tx)) (\<lambda>output_total.
     Inr (t0\<lparr>
       t_status := (if confirmations = 0 then ''unconfirmed'' else ''confirmed''),
       t_hash := txId,
       t_date := (case tx_timestamp tx of
                    Some ts \<Rightarrow> Some ts
                  | None \<Rightarrow> (case tx_blockTime tx of Some bt \<Rightarrow> Some bt | None \<Rightarrow> t_date t0)),
       t_confirmations := confirmations,
       t_block_height := block_height,
       t_block_hash := block_hash,
       t_fee := Some fee,
       t_rawtx := rawTx,
       t_size := size,
       t_network := network,
       t_inputs := inputs,
       t_outputs := outputs,
       t_input_total := input_total,
       t_output_total := output_total\<rparr>))))))))))))"

section \<open>\<open>gettransactions\<close>\<close>

text \<open>
  The body of \<open>for tx in res['data']['list']\<close>: the parsed transaction is appended, then
  the list is emptied if this item's \<open>txId\<close> is the cursor \<open>after_txid\<close>.
\<close>

fun gettransactions_page ::
  "codec \<Rightarrow> string \<Rightarrow> string \<Rightarrow> item list \<Rightarrow> transaction list \<Rightarrow> error + transaction list"
where
  "gettransactions_page import_raw network after_txid [] txs = Inr txs"
| "gettransactions_page import_raw network after_txid (tx # rest) txs =
     (case parse_transaction import_raw network tx of
        Inl e \<Rightarrow> Inl e
      | Inr t \<Rightarrow>
         (case tx_txId tx of
            None \<Rightarrow> Inl KeyError
          | Some txid \<Rightarrow>
              gettransactions_page import_raw network after_txid rest
                (if txid = after_txid then [] else txs @ [t])))"

text \<open>
  The \<open>while True\<close> loop. It runs for as long as the provider reports more pages, so the
  model counts the requests it may still issue: with none left the result is \<open>None\<close>.
  A result is the list of the pages requested, in order, and what the call returned or
  raised.
\<close>

fun gettransactions_loop ::
  "nat \<Rightarrow> provider \<Rightarrow> codec \<Rightarrow> string \<Rightarrow> string \<Rightarrow> string \<Rightarrow> int \<Rightarrow> transaction list
     \<Rightarrow> (int list \<times> (error + transaction list)) option"
where
  "gettransactions_loop 0 request import_raw network address after_txid page txs = None"
| "gettransactions_loop (Suc fuel) request import_raw network address after_txid page txs =
     (case request address page of
        Inl e \<Rightarrow> Some ([page], Inl e)
      | Inr res \<Rightarrow>
         (case and_then (getitem (res_list res))
                 (\<lambda>l. gettransactions_page import_raw network after_txid l txs) of
            Inl e \<Rightarrow> Some ([page], Inl e)
          | Inr txs' \<Rightarrow>
             (case res_pages res of
                None \<Rightarrow> Some ([page], Inl KeyError)
              | Some pages \<Rightarrow>
                  if page + 1 > pages then Some ([page], Inr txs')
                  else
                    (case gettransactions_loop fuel request import_raw network address
                            after_txid (page + 1) txs' of
                       None \<Rightarrow> None
                     | Some (log, out) \<Rightarrow> Some (page # log, out)))))"

definition gettransactions ::
  "nat \<Rightarrow> provider \<Rightarrow> codec \<Rightarrow> string \<Rightarrow> string \<Rightarrow> string \<Rightarrow> int
     \<Rightarrow> (int list \<times> (error + transaction list)) option"
where
  "gettransactions fuel request import_raw network address after_txid max_txs =
     (case gettransactions_loop fuel request import_raw network address after_txid 0 [] of
        None \<Rightarrow> None
      | Some (log, Inl e) \<Rightarrow> Some (log, Inl e)
      | Some (log, Inr txs) \<Rightarrow> Some (log, Inr (slice_to txs max_txs)))"

section \<open>\<open>getutxos\<close>\<close>

text \<open>The dictionary that \<open>getutxos\<close> appends for an output.\<close>

record utxo =
  u_address :: string
  u_tx_hash :: string
  u_confirmations :: int
  u_output_n :: int
  u_input_n :: int
  u_block_height :: int
  u_fee :: "int option"
  u_size :: int
  u_value :: int
  u_script :: string
  u_date :: int

text \<open>
  The body of \<open>for outp in tx['vOut']\<close> for one output: \<open>Inr None\<close> is \<open>continue\<close>,
  \<open>Inr (Some u)\<close> is the dictionary appended. The test is evaluated left to right and stops
  at the first disjunct that holds.
\<close>

definition getutxos_output :: "string \<Rightarrow> item \<Rightarrow> int \<Rightarrow> vout \<Rightarrow> error + utxo option" where
  "getutxos_output address tx outp utxo =
     (case utxo_address utxo of
        None \<Rightarrow> Inr None
      | Some a \<Rightarrow>
          if a = address then
            and_then (getitem (utxo_spent utxo)) (\<lambda>spent.
              if spent then Inr None
              else
                and_then (getitem (tx_txId tx)) (\<lambda>txId.
                and_then (getitem (tx_confirmations tx)) (\<lambda>confirmations.
                and_then (getitem (tx_blockHeight tx)) (\<lambda>blockHeight.
                and_then (getitem (utxo_value utxo)) (\<lambda>v.
                and_then (getitem (utxo_scriptPubKey utxo)) (\<lambda>script.
                and_then (getitem (tx_timestamp tx)) (\<lambda>timestamp.
                Inr (Some \<lparr>
                  u_address = a,
                  u_tx_hash = txId,
                  u_confirmations = confirmations,
                  u_output_n = outp,
                  u_input_n = 0,
                  u_block_height = blockHeight,
                  u_fee = None,
                  u_size = 0,
                  u_value = v,
                  u_script = script,
                  u_date = timestamp\<rparr>))))))))
          else Inr None)"

fun getutxos_outputs ::
  "string \<Rightarrow> item \<Rightarrow> (int \<times> vout) list \<Rightarrow> utxo list \<Rightarrow> error + utxo list"
where
  "getutxos_outputs address tx [] utxos = Inr utxos"
| "getutxos_outputs address tx ((outp, utxo) # rest) utxos =
     (case getutxos_output address tx outp utxo of
        Inl e \<Rightarrow> Inl e
      | Inr None \<Rightarrow> getutxos_outputs address tx rest utxos
      | Inr (Some u) \<Rightarrow> getutxos_outputs address tx rest (utxos @ [u]))"

text \<open>
  The body of \<open>for tx in txs\<close>: the outputs of the item, then the list is emptied if the
  item's \<open>hash\<close> is the cursor.
\<close>

fun getutxos_page :: "string \<Rightarrow> string \<Rightarrow> item list \<Rightarrow> utxo list \<Rightarrow> error + utxo list" where
  "getutxos_page address after_txid [] utxos = Inr utxos"
| "getutxos_page address after_txid (tx # rest) utxos =
     (case and_then (getitem (tx_vOut tx)) (\<lambda>vOut. getutxos_outputs address tx vOut utxos) of
        Inl e \<Rightarrow> Inl e
      | Inr utxos' \<Rightarrow>
         (case tx_hash tx of
            None \<Rightarrow> Inl KeyError
          | Some h \<Rightarrow>
              getutxos_page address after_txid rest (if h = after_txid then [] else utxos')))"

fun getutxos_loop ::
  "nat \<Rightarrow> provider \<Rightarrow> string \<Rightarrow> string \<Rightarrow> int \<Rightarrow> utxo list
     \<Rightarrow> (int list \<times> (error + utxo list)) option"
where
  "getutxos_loop 0 request address after_txid page utxos = None"
| "getutxos_loop (Suc fuel) request address after_txid page utxos =
     (case request address page of
        Inl e \<Rightarrow> Some ([page], Inl e)
      | Inr res \<Rightarrow>
         (case and_then (getitem (res_list res))
                 (\<lambda>txs. getutxos_page address after_txid txs utxos) of
            Inl e \<Rightarrow> Some ([page], Inl e)
          | Inr utxos' \<Rightarrow>
             (case res_pages res of
                None \<Rightarrow> Some ([page], Inl KeyError)
              | Some pages \<Rightarrow>
                  if page + 1 > pages then Some ([page], Inr utxos')
                  else
                    (case getutxos_loop fuel request address after_txid (page + 1) utxos' of
                       None \<Rightarrow> None
                     | Some (log, out) \<Rightarrow> Some (page # log, out)))))"

definition getutxos ::
  "nat \<Rightarrow> provider \<Rightarrow> string \<Rightarrow> string \<Rightarrow> int \<Rightarrow> (int list \<times> (error + utxo list)) option"
where
  "getutxos fuel request address after_txid max_txs =
     (case getutxos_loop fuel request address after_txid 1 [] of
        None \<Rightarrow> None
      | Some (log, Inl e) \<Rightarrow> Some (log, Inl e)
      | Some (log, Inr utxos) \<Rightarrow> Some (log, Inr (slice_to utxos max_txs)))"

section \<open>\<open>getbalance\<close>\<close>

text \<open>\<open>res['data']\<close> of \<open>compose_request('address', 'state', address)\<close>.\<close>

record state =
  st_balance :: "int option"

text \<open>The result is the list of the addresses requested, in order, and the outcome.\<close>

fun getbalance_loop ::
  "(string \<Rightarrow> error + state) \<Rightarrow> string list \<Rightarrow> int \<Rightarrow> string list \<times> (error + int)"
where
  "getbalance_loop request [] balance = ([], Inr balance)"
| "getbalance_loop request (address # rest) balance =
     (case and_then (request address) (\<lambda>res. getitem (st_balance res)) of
        Inl e \<Rightarrow> ([address], Inl e)
      | Inr b \<Rightarrow>
         (case getbalance_loop request rest (balance + b) of
            (log, out) \<Rightarrow> (address # log, out)))"

definition getbalance ::
  "(string \<Rightarrow> error + state) \<Rightarrow> string list \<Rightarrow> string list \<times> (error + int)"
where
  "getbalance request addresslist = getbalance_loop request addresslist 0"

section \<open>What a fetch has seen\<close>

text \<open>The items of the page \<open>p\<close> as the provider returns them (none when the request fails).\<close>

definition page_items :: "provider \<Rightarrow> string \<Rightarrow> int \<Rightarrow> item list" where
  "page_items request address p =
     (case request address p of
        Inl e \<Rightarrow> []
      | Inr res \<Rightarrow> (case res_list res of None \<Rightarrow> [] | Some l \<Rightarrow> l))"

text \<open>The items of all the pages of a request log, in the order they were received.\<close>

definition encountered :: "provider \<Rightarrow> string \<Rightarrow> int list \<Rightarrow> item list" where
  "encountered request address log = concat (map (page_items request address) log)"

text \<open>
  The elements of a list after the last one that satisfies \<open>P\<close>; the whole list when none
  does.
\<close>

fun after_last :: "('a \<Rightarrow> bool) \<Rightarrow> 'a list \<Rightarrow> 'a list" where
  "after_last P [] = []"
| "after_last P (x # xs) =
     (if list_ex P xs then after_last P xs else if P x then xs else x # xs)"

text \<open>The dictionaries \<open>getutxos\<close> appends for one item, starting from an empty list.\<close>

definition tx_utxos :: "string \<Rightarrow> item \<Rightarrow> error + utxo list" where
  "tx_utxos address tx =
     and_then (getitem (tx_vOut tx)) (\<lambda>vOut. getutxos_outputs address tx vOut [])"




section \<open>The Ledger Store's enumerated columns\<close>













section \<open>Example data\<close>

text \<open>
  A codec for the examples: it fails on the empty string, and reads the raw bytes \<open>cb\<close> as a
  coinbase transaction. Every transaction has one input and one output.
\<close>

definition example_codec :: codec where
  "example_codec rawTx network =
     (if rawTx = [] then Inl EncodingError
      else Inr \<lparr>
        t_status = ''new'', t_hash = rawTx, t_date = None, t_confirmations = 0,
        t_block_height = None, t_block_hash = None, t_fee = None, t_rawtx = rawTx,
        t_size = 0, t_network = network, t_coinbase = (rawTx = ''cb''),
        t_inputs = [\<lparr>i_index_n = 0, i_value = 0\<rparr>],
        t_outputs = [\<lparr>o_output_n = 0, o_spent = False\<rparr>],
        t_input_total = 0, t_output_total = 0\<rparr>)"

text \<open>
  A confirmed item with the given \<open>txId\<close> and \<open>hash\<close>, paying 50 to \<open>addr1\<close> in an unspent
  output.
\<close>

definition example_item :: "string \<Rightarrow> string \<Rightarrow> item" where
  "example_item txid h = \<lparr>
     tx_rawTx = Some txid, tx_confirmations = Some 3, tx_txId = Some txid, tx_hash = Some h,
     tx_timestamp = Some 1565000000, tx_blockTime = None, tx_blockHeight = Some 590000,
     tx_blockHash = Some ''00ab'', tx_fee = Some 10, tx_size = Some 200,
     tx_vIn = Some [(0, \<lparr>vin_amount = Some 60\<rparr>)],
     tx_vOut = Some [(0, \<lparr>utxo_address = Some ''addr1'', utxo_spent = Some False,
                          utxo_value = Some 50, utxo_scriptPubKey = Some ''76a9''\<rparr>)],
     tx_outputsAmount = Some 50, tx_inputsAmount = Some 60\<rparr>"

text \<open>
  An unconfirmed coinbase item with \<open>outputsAmount = 50\<close> and \<open>fee = 0\<close>, without the keys
  \<open>vIn\<close>, \<open>blockHeight\<close> and \<open>blockHash\<close>.
\<close>

definition coinbase_item :: item where
  "coinbase_item = \<lparr>
     tx_rawTx = Some ''cb'', tx_confirmations = Some 0, tx_txId = Some ''cb'',
     tx_hash = Some ''cb'', tx_timestamp = None, tx_blockTime = None, tx_blockHeight = None,
     tx_blockHash = None, tx_fee = Some 0, tx_size = Some 100, tx_vIn = None,
     tx_vOut = Some [(0, \<lparr>utxo_address = Some ''addr1'', utxo_spent = Some True,
                          utxo_value = Some 50, utxo_scriptPubKey = Some ''76a9''\<rparr>)],
     tx_outputsAmount = Some 50, tx_inputsAmount = None\<rparr>"

text \<open>What \<open>_parse_transaction\<close> and \<open>getutxos\<close> make of \<open>example_item txid h\<close>.\<close>

definition example_tx :: "string \<Rightarrow> transaction" where
  "example_tx txid = \<lparr>
     t_status = ''confirmed'', t_hash = txid, t_date = Some 1565000000, t_confirmations = 3,
     t_block_height = Some 590000, t_block_hash = Some ''00ab'', t_fee = Some 10,
     t_rawtx = txid, t_size = 200, t_network = ''bitcoin'', t_coinbase = False,
     t_inputs = [\<lparr>i_index_n = 0, i_value = 60\<rparr>],
     t_outputs = [\<lparr>o_output_n = 0, o_spent = False\<rparr>],
     t_input_total = 60, t_output_total = 50\<rparr>"

definition example_utxo :: "string \<Rightarrow> utxo" where
  "example_utxo txid = \<lparr>
     u_address = ''addr1'', u_tx_hash = txid, u_confirmations = 3, u_output_n = 0,
     u_input_n = 0, u_block_height = 590000, u_fee = None, u_size = 0, u_value = 50,
     u_script = ''76a9'', u_date = 1565000000\<rparr>"

text \<open>
  Two variants of the confirmed item: one without the key \<open>confirmations\<close>, and one whose
  confirmation count is zero.
\<close>

definition no_count_item :: item where
  "no_count_item = (example_item ''N'' ''N'')\<lparr>tx_confirmations := None\<rparr>"

definition zero_count_item :: item where
  "zero_count_item = (example_item ''Z'' ''Z'')\<lparr>tx_confirmations := Some 0\<rparr>"

text \<open>
  A provider with the history \<open>[A, B, C, D]\<close> on the two pages \<open>1\<close> and \<open>2\<close>, which
  answers any other page number with an empty page.
\<close>

definition example_provider :: provider where
  "example_provider address page =
     (if page = 1
      then Inr \<lparr>res_list = Some [example_item ''A'' ''A'', example_item ''B'' ''B''],
                res_pages = Some 2\<rparr>
      else if page = 2
      then Inr \<lparr>res_list = Some [example_item ''C'' ''C'', example_item ''D'' ''D''],
                res_pages = Some 2\<rparr>
      else Inr \<lparr>res_list = Some [], res_pages = Some 2\<rparr>)"

text \<open>
  A provider with one page \<open>[B, C]\<close>, where \<open>B\<close> is a segwit transaction: its \<open>hash\<close>
  (\<open>wB\<close>, computed with the witness data) is not its \<open>txId\<close>.
\<close>

definition segwit_provider :: provider where
  "segwit_provider address page =
     (if page = 1
      then Inr \<lparr>res_list = Some [example_item ''B'' ''wB'', example_item ''C'' ''C''],
                res_pages = Some 1\<rparr>
      else Inr \<lparr>res_list = Some [], res_pages = Some 1\<rparr>)"

text \<open>
  An item with four outputs: one of \<open>addr1\<close> unspent, one of \<open>addr1\<close> spent, one without
  an address and one of \<open>addr2\<close>; and a provider whose only page holds it.
\<close>

definition mixed_item :: item where
  "mixed_item = (example_item ''M'' ''M'')\<lparr>
     tx_vOut := Some [
       (0, \<lparr>utxo_address = Some ''addr1'', utxo_spent = Some False,
            utxo_value = Some 50, utxo_scriptPubKey = Some ''76a9''\<rparr>),
       (1, \<lparr>utxo_address = Some ''addr1'', utxo_spent = Some True,
            utxo_value = Some 7, utxo_scriptPubKey = Some ''76a9''\<rparr>),
       (2, \<lparr>utxo_address = None, utxo_spent = Some False,
            utxo_value = Some 0, utxo_scriptPubKey = Some ''6a''\<rparr>),
       (3, \<lparr>utxo_address = Some ''addr2'', utxo_spent = Some False,
            utxo_value = Some 9, utxo_scriptPubKey = Some ''76a9''\<rparr>)]\<rparr>"

definition mixed_provider :: provider where
  "mixed_provider address page =
     (if page = 1 then Inr \<lparr>res_list = Some [mixed_item], res_pages = Some 1\<rparr>
      else Inr \<lparr>res_list = Some [], res_pages = Some 1\<rparr>)"




section \<open>Basic facts about the error plumbing\<close>

lemma and_then_Inr: "and_then m f = Inr y \<longleftrightarrow> (\<exists>x. m = Inr x \<and> f x = Inr y)"
  by (cases m) (simp_all add: and_then_def)

lemma getitem_Inr: "getitem v = Inr x \<longleftrightarrow> v = Some x"
  by (cases v) (simp_all add: getitem_def)

lemma and_then_simps:
  "and_then (Inr x) f = f x" "and_then (Inl e) f = Inl e"
  by (simp_all add: and_then_def)

lemma getitem_simps:
  "getitem (Some x) = Inr x" "getitem None = Inl KeyError"
  by (simp_all add: getitem_def)

section \<open>\<open>getbalance\<close> sums the balances\<close>

lemma getbalance_loop_ok:
  "\<forall>a\<in>set addresslist. request a = Inr \<lparr>st_balance = Some (bal a)\<rparr> \<Longrightarrow>
   getbalance_loop request addresslist b
     = (addresslist, Inr (foldl (\<lambda>s a. s + bal a) b addresslist))"
  by (induction addresslist arbitrary: b) (simp_all add: and_then_def getitem_def)

lemma foldl_balance_sum:
  "foldl (\<lambda>s a. s + bal a) (b::int) addresslist = b + sum_list (map bal addresslist)"
  by (induction addresslist arbitrary: b) simp_all

text \<open>
  Claim C10. For the empty address list \<open>getbalance\<close> returns 0 and requests nothing. When
  the provider answers every address \<open>a\<close> of the list with a balance \<open>bal a\<close>, the call
  requests exactly the addresses of the list, in order, and returns the balances added up
  from 0 in list order, which is their sum.
\<close>

theorem getbalance_sum:
  "getbalance request [] = ([], Inr 0) \<and>
   ((\<forall>a\<in>set addresslist. request a = Inr \<lparr>st_balance = Some (bal a)\<rparr>) \<longrightarrow>
      getbalance request addresslist
        = (addresslist, Inr (foldl (\<lambda>s a. s + bal a) 0 addresslist)) \<and>
      foldl (\<lambda>s a. s + bal a) 0 addresslist = sum_list (map bal addresslist))"
proof (intro conjI impI)
  show "getbalance request [] = ([], Inr 0)"
    by (simp add: getbalance_def)
next
  assume "\<forall>a\<in>set addresslist. request a = Inr \<lparr>st_balance = Some (bal a)\<rparr>"
  then show "getbalance request addresslist
      = (addresslist, Inr (foldl (\<lambda>s a. s + bal a) 0 addresslist))"
    unfolding getbalance_def by (rule getbalance_loop_ok)
next
  show "foldl (\<lambda>s a. s + bal a) 0 addresslist = sum_list (map bal addresslist)"
    by (simp add: foldl_balance_sum)
qed

theorem getbalance_sum_witness:
  "list_all (\<lambda>a. (\<lambda>a. Inr \<lparr>st_balance = Some (if a = ''a2'' then 7 else 5)\<rparr>) a
              = (Inr \<lparr>st_balance = Some ((\<lambda>a. if a = ''a2'' then 7 else 5) a)\<rparr> :: error + state))
     [''a1'', ''a2'', ''a3''] \<and>
   getbalance (\<lambda>a. Inr \<lparr>st_balance = Some (if a = ''a2'' then 7 else 5)\<rparr>)
       [''a1'', ''a2'', ''a3'']
     = ([''a1'', ''a2'', ''a3''], Inr 17)"
  using getbalance_sum [of "\<lambda>a. Inr \<lparr>st_balance = Some (if a = ''a2'' then 7 else 5)\<rparr>"
      "[''a1'', ''a2'', ''a3'']" "\<lambda>a. if a = ''a2'' then 7 else 5"]
  by simp

section \<open>\<open>_parse_transaction\<close>: status, block data and totals\<close>

text \<open>What a successful parse has read, and the record it returns.\<close>

lemma parse_transaction_Inr:
  assumes "parse_transaction import_raw network tx = Inr t"
  obtains rawTx t0 confirmations txId block_height block_hash fee size inputs outputs
    input_total output_total
  where "tx_rawTx tx = Some rawTx"
    and "import_raw rawTx network = Inr t0"
    and "tx_confirmations tx = Some confirmations"
    and "tx_txId tx = Some txId"
    and "(case tx_blockHeight tx of
            None \<Rightarrow> Inr (t_block_height t0, t_block_hash t0)
          | Some h \<Rightarrow> and_then (getitem (tx_blockHash tx)) (\<lambda>bh. Inr (Some h, Some bh)))
         = Inr (block_height, block_hash)"
    and "tx_fee tx = Some fee"
    and "tx_size tx = Some size"
    and "(if t_coinbase t0 then Inr (t_inputs t0) else input_values tx (t_inputs t0)) = Inr inputs"
    and "output_spent tx (t_outputs t0) = Inr outputs"
    and "(if t_coinbase t0
          then and_then (getitem (tx_outputsAmount tx)) (\<lambda>oa. Inr (oa - fee))
          else getitem (tx_inputsAmount tx)) = Inr input_total"
    and "tx_outputsAmount tx = Some output_total"
    and "t = t0\<lparr>
       t_status := (if confirmations = 0 then ''unconfirmed'' else ''confirmed''),
       t_hash := txId,
       t_date := (case tx_timestamp tx of
                    Some ts \<Rightarrow> Some ts
                  | None \<Rightarrow> (case tx_blockTime tx of Some bt \<Rightarrow> Some bt | None \<Rightarrow> t_date t0)),
       t_confirmations := confirmations,
       t_block_height := block_height,
       t_block_hash := block_hash,
       t_fee := Some fee,
       t_rawtx := rawTx,
       t_size := size,
       t_network := network,
       t_inputs := inputs,
       t_outputs := outputs,
       t_input_total := input_total,
       t_output_total := output_total\<rparr>"
  using assms unfolding parse_transaction_def and_then_Inr getitem_Inr
  by (auto simp: and_then_Inr getitem_Inr)

text \<open>The two example items, parsed.\<close>

lemma example_parse_confirmed:
  "parse_transaction example_codec ''bitcoin'' (example_item ''A'' ''A'') =
     Inr \<lparr>t_status = ''confirmed'', t_hash = ''A'', t_date = Some 1565000000,
          t_confirmations = 3, t_block_height = Some 590000, t_block_hash = Some ''00ab'',
          t_fee = Some 10, t_rawtx = ''A'', t_size = 200, t_network = ''bitcoin'',
          t_coinbase = False, t_inputs = [\<lparr>i_index_n = 0, i_value = 60\<rparr>],
          t_outputs = [\<lparr>o_output_n = 0, o_spent = False\<rparr>],
          t_input_total = 60, t_output_total = 50\<rparr>"
  by (simp add: parse_transaction_def example_codec_def example_item_def and_then_def
      getitem_def)

lemma example_parse_coinbase:
  "parse_transaction example_codec ''bitcoin'' coinbase_item =
     Inr \<lparr>t_status = ''unconfirmed'', t_hash = ''cb'', t_date = None,
          t_confirmations = 0, t_block_height = None, t_block_hash = None,
          t_fee = Some 0, t_rawtx = ''cb'', t_size = 100, t_network = ''bitcoin'',
          t_coinbase = True, t_inputs = [\<lparr>i_index_n = 0, i_value = 0\<rparr>],
          t_outputs = [\<lparr>o_output_n = 0, o_spent = True\<rparr>],
          t_input_total = 50, t_output_total = 50\<rparr>"
  by (simp add: parse_transaction_def example_codec_def coinbase_item_def and_then_def
      getitem_def)


lemma parse_transaction_status_block:
  assumes "parse_transaction import_raw network tx = Inr t"
  shows "\<exists>rawTx t0 confirmations.
           tx_rawTx tx = Some rawTx \<and> import_raw rawTx network = Inr t0 \<and>
           tx_confirmations tx = Some confirmations \<and>
           t_status t = (if confirmations = 0 then ''unconfirmed'' else ''confirmed'') \<and>
           (case tx_blockHeight tx of
              None \<Rightarrow> t_block_height t = t_block_height t0 \<and> t_block_hash t = t_block_hash t0
            | Some h \<Rightarrow> t_block_height t = Some h \<and> t_block_hash t = tx_blockHash tx \<and>
                       tx_blockHash tx \<noteq> None)"
proof -
  from assms obtain rawTx t0 confirmations txId block_height block_hash fee size inputs
      outputs input_total output_total
    where raw: "tx_rawTx tx = Some rawTx" and t0: "import_raw rawTx network = Inr t0"
      and conf: "tx_confirmations tx = Some confirmations"
      and block: "(case tx_blockHeight tx of
            None \<Rightarrow> Inr (t_block_height t0, t_block_hash t0)
          | Some h \<Rightarrow> and_then (getitem (tx_blockHash tx)) (\<lambda>bh. Inr (Some h, Some bh)))
         = Inr (block_height, block_hash)"
      and t: "t = t0\<lparr>
       t_status := (if confirmations = 0 then ''unconfirmed'' else ''confirmed''),
       t_hash := txId,
       t_date := (case tx_timestamp tx of
                    Some ts \<Rightarrow> Some ts
                  | None \<Rightarrow> (case tx_blockTime tx of Some bt \<Rightarrow> Some bt | None \<Rightarrow> t_date t0)),
       t_confirmations := confirmations,
       t_block_height := block_height,
       t_block_hash := block_hash,
       t_fee := Some fee,
       t_rawtx := rawTx,
       t_size := size,
       t_network := network,
       t_inputs := inputs,
       t_outputs := outputs,
       t_input_total := input_total,
       t_output_total := output_total\<rparr>"
    by (rule parse_transaction_Inr)
  have status: "t_status t = (if confirmations = 0 then ''unconfirmed'' else ''confirmed'')"
    and bh: "t_block_height t = block_height" "t_block_hash t = block_hash"
    by (simp_all add: t)
  have "case tx_blockHeight tx of
          None \<Rightarrow> t_block_height t = t_block_height t0 \<and> t_block_hash t = t_block_hash t0
        | Some h \<Rightarrow> t_block_height t = Some h \<and> t_block_hash t = tx_blockHash tx \<and>
                   tx_blockHash tx \<noteq> None"
  proof (cases "tx_blockHeight tx")
    case None
    with block bh show ?thesis by simp
  next
    case (Some h)
    with block obtain b where "tx_blockHash tx = Some b" "block_height = Some h"
      "block_hash = Some b"
      by (auto simp: and_then_Inr getitem_Inr)
    with Some bh show ?thesis by simp
  qed
  with raw t0 conf status show ?thesis by blast
qed

lemma parse_transaction_no_count:
  "tx_confirmations tx = None \<Longrightarrow> parse_transaction import_raw network tx \<noteq> Inr t"
proof
  assume "tx_confirmations tx = None" and "parse_transaction import_raw network tx = Inr t"
  from parse_transaction_status_block [OF this(2)] this(1) show False by auto
qed

lemma parse_transaction_no_count_KeyError:
  "tx_rawTx tx = Some rawTx \<Longrightarrow> import_raw rawTx network = Inr t0 \<Longrightarrow>
   tx_confirmations tx = None \<Longrightarrow> parse_transaction import_raw network tx = Inl KeyError"
  by (simp add: parse_transaction_def and_then_simps getitem_simps)

text \<open>
  Claim C4, as the code has it. The status is read from the item's confirmation count, which
  is an integer when present. An item without the key \<open>confirmations\<close> yields no record
  at all: the lookup raises \<open>KeyError\<close> (once the raw transaction has been decoded). When a
  record is returned, its status is \<open>unconfirmed\<close> if the count is zero and \<open>confirmed\<close>
  if it is not. The block height and hash of the item are attached when the item has the key
  \<open>blockHeight\<close>; without it the record keeps the block height and hash the codec gave.
  The status is computed from the item alone: whatever the codec returned, and whichever
  codec and network are used, the status is the same.
\<close>

theorem parse_transaction_status:
  "(tx_confirmations tx = None \<longrightarrow>
      (\<forall>t. parse_transaction import_raw network tx \<noteq> Inr t) \<and>
      (\<forall>rawTx t0. tx_rawTx tx = Some rawTx \<and> import_raw rawTx network = Inr t0 \<longrightarrow>
         parse_transaction import_raw network tx = Inl KeyError)) \<and>
   (parse_transaction import_raw network tx = Inr t \<longrightarrow>
      (\<exists>rawTx t0 confirmations.
           tx_rawTx tx = Some rawTx \<and> import_raw rawTx network = Inr t0 \<and>
           tx_confirmations tx = Some confirmations \<and>
           t_status t = (if confirmations = 0 then ''unconfirmed'' else ''confirmed'') \<and>
           (case tx_blockHeight tx of
              None \<Rightarrow> t_block_height t = t_block_height t0 \<and> t_block_hash t = t_block_hash t0
            | Some h \<Rightarrow> t_block_height t = Some h \<and> t_block_hash t = tx_blockHash tx \<and>
                       tx_blockHash tx \<noteq> None)) \<and>
      (\<forall>import_raw' network' t'.
         parse_transaction import_raw' network' tx = Inr t' \<longrightarrow> t_status t' = t_status t))"
proof (intro conjI allI impI)
  fix t'
  assume "tx_confirmations tx = None"
  then show "parse_transaction import_raw network tx \<noteq> Inr t'"
    by (rule parse_transaction_no_count)
next
  fix rawTx t0
  assume "tx_confirmations tx = None"
    and "tx_rawTx tx = Some rawTx \<and> import_raw rawTx network = Inr t0"
  then show "parse_transaction import_raw network tx = Inl KeyError"
    by (intro parse_transaction_no_count_KeyError [where rawTx = rawTx and ?t0.0 = t0])
       simp_all
next
  assume "parse_transaction import_raw network tx = Inr t"
  then show "\<exists>rawTx t0 confirmations.
           tx_rawTx tx = Some rawTx \<and> import_raw rawTx network = Inr t0 \<and>
           tx_confirmations tx = Some confirmations \<and>
           t_status t = (if confirmations = 0 then ''unconfirmed'' else ''confirmed'') \<and>
           (case tx_blockHeight tx of
              None \<Rightarrow> t_block_height t = t_block_height t0 \<and> t_block_hash t = t_block_hash t0
            | Some h \<Rightarrow> t_block_height t = Some h \<and> t_block_hash t = tx_blockHash tx \<and>
                       tx_blockHash tx \<noteq> None)"
    by (rule parse_transaction_status_block)
next
  fix import_raw' network' t'
  assume this_one: "parse_transaction import_raw network tx = Inr t"
    and other: "parse_transaction import_raw' network' tx = Inr t'"
  from parse_transaction_status_block [OF this_one] obtain c where
    c: "tx_confirmations tx = Some c"
       "t_status t = (if c = 0 then ''unconfirmed'' else ''confirmed'')"
    by blast
  from parse_transaction_status_block [OF other] obtain c' where
    c': "tx_confirmations tx = Some c'"
        "t_status t' = (if c' = 0 then ''unconfirmed'' else ''confirmed'')"
    by blast
  from c c' show "t_status t' = t_status t" by simp
qed

lemma parse_zero_count:
  "parse_transaction example_codec ''bitcoin'' zero_count_item
     = Inr ((example_tx ''Z'')\<lparr>t_status := ''unconfirmed'', t_confirmations := 0\<rparr>)"
  by (simp add: parse_transaction_def example_codec_def zero_count_item_def example_item_def
      example_tx_def and_then_simps getitem_simps)

lemma parse_no_count:
  "parse_transaction example_codec ''bitcoin'' no_count_item = Inl KeyError"
  by (simp add: parse_transaction_def example_codec_def no_count_item_def example_item_def
      and_then_simps getitem_simps)


lemma no_count_item_fields:
  "tx_confirmations no_count_item = None" "tx_rawTx no_count_item = Some ''N''"
  by (simp_all add: no_count_item_def example_item_def)

lemma zero_count_item_fields:
  "tx_confirmations zero_count_item = Some 0" "tx_blockHeight zero_count_item = Some 590000"
  "tx_blockHash zero_count_item = Some ''00ab''"
  by (simp_all add: zero_count_item_def example_item_def)

lemma coinbase_item_fields:
  "tx_confirmations coinbase_item = Some 0" "tx_blockHeight coinbase_item = None"
  "tx_rawTx coinbase_item = Some ''cb''"
  by (simp_all add: coinbase_item_def)

theorem parse_transaction_status_witness:
  "tx_confirmations no_count_item = None \<and>
   parse_transaction example_codec ''bitcoin'' no_count_item = Inl KeyError \<and>
   tx_confirmations zero_count_item = Some 0 \<and>
   tx_blockHeight zero_count_item = Some 590000 \<and>
   (\<exists>t. parse_transaction example_codec ''bitcoin'' zero_count_item = Inr t \<and>
        t_status t = ''unconfirmed'' \<and> t_block_height t = Some 590000 \<and>
        t_block_hash t = Some ''00ab'') \<and>
   tx_confirmations coinbase_item = Some 0 \<and>
   tx_blockHeight coinbase_item = None \<and>
   (\<exists>t t0. parse_transaction example_codec ''bitcoin'' coinbase_item = Inr t \<and>
        example_codec ''cb'' ''bitcoin'' = Inr t0 \<and>
        t_status t = ''unconfirmed'' \<and>
        t_block_height t = t_block_height t0 \<and> t_block_hash t = t_block_hash t0)"
proof -
  have codec: "example_codec ''N'' ''bitcoin'' = Inr \<lparr>
        t_status = ''new'', t_hash = ''N'', t_date = None, t_confirmations = 0,
        t_block_height = None, t_block_hash = None, t_fee = None, t_rawtx = ''N'',
        t_size = 0, t_network = ''bitcoin'', t_coinbase = False,
        t_inputs = [\<lparr>i_index_n = 0, i_value = 0\<rparr>],
        t_outputs = [\<lparr>o_output_n = 0, o_spent = False\<rparr>],
        t_input_total = 0, t_output_total = 0\<rparr>"
    by (simp add: example_codec_def)
  from parse_transaction_status [of no_count_item example_codec "''bitcoin''", THEN conjunct1]
    no_count_item_fields(1)
  have "\<forall>rawTx t0. tx_rawTx no_count_item = Some rawTx \<and>
          example_codec rawTx ''bitcoin'' = Inr t0 \<longrightarrow>
          parse_transaction example_codec ''bitcoin'' no_count_item = Inl KeyError"
    by simp
  with no_count_item_fields(2) codec
  have 1: "parse_transaction example_codec ''bitcoin'' no_count_item = Inl KeyError"
    by blast
  obtain tz where tz: "parse_transaction example_codec ''bitcoin'' zero_count_item = Inr tz"
    using parse_zero_count by blast
  from parse_transaction_status [of zero_count_item example_codec "''bitcoin''" tz,
      THEN conjunct2, THEN mp, OF tz, THEN conjunct1]
  obtain c where
    c: "tx_confirmations zero_count_item = Some c"
       "t_status tz = (if c = 0 then ''unconfirmed'' else ''confirmed'')"
       "case tx_blockHeight zero_count_item of
          None \<Rightarrow> True
        | Some h \<Rightarrow> t_block_height tz = Some h \<and> t_block_hash tz = tx_blockHash zero_count_item"
    by (auto split: option.splits)
  from c zero_count_item_fields
  have "t_status tz = ''unconfirmed''" "t_block_height tz = Some 590000"
    "t_block_hash tz = Some ''00ab''"
    by simp_all
  with tz have 2: "\<exists>t. parse_transaction example_codec ''bitcoin'' zero_count_item = Inr t \<and>
        t_status t = ''unconfirmed'' \<and> t_block_height t = Some 590000 \<and>
        t_block_hash t = Some ''00ab''"
    by blast
  obtain tc where tc: "parse_transaction example_codec ''bitcoin'' coinbase_item = Inr tc"
    using example_parse_coinbase by blast
  from parse_transaction_status [of coinbase_item example_codec "''bitcoin''" tc,
      THEN conjunct2, THEN mp, OF tc, THEN conjunct1]
  obtain rawTx t0 c' where
    c': "tx_rawTx coinbase_item = Some rawTx" "example_codec rawTx ''bitcoin'' = Inr t0"
       "tx_confirmations coinbase_item = Some c'"
       "t_status tc = (if c' = 0 then ''unconfirmed'' else ''confirmed'')"
       "case tx_blockHeight coinbase_item of
          None \<Rightarrow> t_block_height tc = t_block_height t0 \<and> t_block_hash tc = t_block_hash t0
        | Some h \<Rightarrow> True"
    by (auto split: option.splits)
  from c' coinbase_item_fields
  have "example_codec ''cb'' ''bitcoin'' = Inr t0" "t_status tc = ''unconfirmed''"
    "t_block_height tc = t_block_height t0" "t_block_hash tc = t_block_hash t0"
    by simp_all
  with tc have 3: "\<exists>t t0. parse_transaction example_codec ''bitcoin'' coinbase_item = Inr t \<and>
        example_codec ''cb'' ''bitcoin'' = Inr t0 \<and>
        t_status t = ''unconfirmed'' \<and>
        t_block_height t = t_block_height t0 \<and> t_block_hash t = t_block_hash t0"
    by blast
  show ?thesis
    using no_count_item_fields(1) 1 zero_count_item_fields(1,2) 2 coinbase_item_fields(1,2) 3
    by (intro conjI)
qed

text \<open>
  An item that lacks the confirmation count gives no record, and an item that has a
  confirmation count, zero, gives an \<open>unconfirmed\<close> record.
\<close>

theorem parse_transaction_status_counterexample:
  "tx_confirmations no_count_item = None \<and>
   parse_transaction example_codec ''bitcoin'' no_count_item = Inl KeyError \<and>
   tx_confirmations zero_count_item = Some 0 \<and>
   parse_transaction example_codec ''bitcoin'' zero_count_item
     = Inr ((example_tx ''Z'')\<lparr>t_status := ''unconfirmed'', t_confirmations := 0\<rparr>) \<and>
   t_status ((example_tx ''Z'')\<lparr>t_status := ''unconfirmed'', t_confirmations := 0\<rparr>)
     \<noteq> ''confirmed''"
  using parse_zero_count parse_no_count no_count_item_fields(1) zero_count_item_fields(1)
  by simp

lemma input_values_Inr:
  "input_values tx ins = Inr ins' \<Longrightarrow>
   list_all2 (\<lambda>i i'. \<exists>vIn entry a. tx_vIn tx = Some vIn \<and> map_of vIn (i_index_n i) = Some entry \<and>
                 vin_amount entry = Some a \<and> i' = i\<lparr>i_value := a\<rparr>) ins ins'"
proof (induction ins arbitrary: ins')
  case Nil
  then show ?case by simp
next
  case (Cons i rest)
  from Cons.prems obtain a rest' where
    a: "and_then (getitem (tx_vIn tx)) (\<lambda>vIn.
           and_then (getitem (map_of vIn (i_index_n i))) (\<lambda>entry.
           getitem (vin_amount entry))) = Inr a"
    and rest: "input_values tx rest = Inr rest'"
    and ins': "ins' = i\<lparr>i_value := a\<rparr> # rest'"
    by (auto split: sum.splits)
  from a obtain vIn entry where "tx_vIn tx = Some vIn" "map_of vIn (i_index_n i) = Some entry"
    "vin_amount entry = Some a"
    by (auto simp: and_then_Inr getitem_Inr)
  with Cons.IH [OF rest] ins' show ?case by simp
qed

lemma output_spent_vIn: "output_spent (tx\<lparr>tx_vIn := v\<rparr>) outs = output_spent tx outs"
  by (induction outs) (simp_all cong: sum.case_cong)

lemma parse_transaction_coinbase_vIn:
  assumes "tx_rawTx tx = Some rawTx" and "import_raw rawTx network = Inr t0"
    and "t_coinbase t0"
  shows "parse_transaction import_raw network (tx\<lparr>tx_vIn := v\<rparr>)
           = parse_transaction import_raw network tx"
  using assms
  by (simp add: parse_transaction_def output_spent_vIn and_then_simps getitem_simps
      cong: option.case_cong if_cong)

text \<open>
  Claim C5. When \<open>_parse_transaction\<close> returns a record, the record is coinbase exactly when
  the decoded transaction is. For a coinbase transaction the input total is the provider's
  \<open>outputsAmount\<close> minus its \<open>fee\<close>, the inputs are the decoded ones unchanged, and \<open>vIn\<close> is
  not read: the result is the same whatever \<open>vIn\<close> holds, also when it is absent. Otherwise
  the input total is the provider's \<open>inputsAmount\<close> and every input carries the \<open>amount\<close> of
  the entry of \<open>vIn\<close> at its index.
\<close>

theorem parse_transaction_input_total:
  assumes "parse_transaction import_raw network tx = Inr t"
  shows "\<exists>rawTx t0 fee output_total.
           tx_rawTx tx = Some rawTx \<and> import_raw rawTx network = Inr t0 \<and>
           tx_fee tx = Some fee \<and> tx_outputsAmount tx = Some output_total \<and>
           t_coinbase t = t_coinbase t0 \<and>
           (if t_coinbase t0
            then t_input_total t = output_total - fee \<and> t_inputs t = t_inputs t0 \<and>
                 (\<forall>v. parse_transaction import_raw network (tx\<lparr>tx_vIn := v\<rparr>) = Inr t)
            else tx_inputsAmount tx = Some (t_input_total t) \<and>
                 list_all2 (\<lambda>i i'. \<exists>vIn entry a. tx_vIn tx = Some vIn \<and>
                     map_of vIn (i_index_n i) = Some entry \<and> vin_amount entry = Some a \<and>
                     i' = i\<lparr>i_value := a\<rparr>) (t_inputs t0) (t_inputs t))"
proof -
  from assms obtain rawTx t0 confirmations txId block_height block_hash fee size inputs
      outputs input_total output_total
    where raw: "tx_rawTx tx = Some rawTx" and t0: "import_raw rawTx network = Inr t0"
      and fee: "tx_fee tx = Some fee"
      and ins: "(if t_coinbase t0 then Inr (t_inputs t0) else input_values tx (t_inputs t0))
                 = Inr inputs"
      and tot: "(if t_coinbase t0
          then and_then (getitem (tx_outputsAmount tx)) (\<lambda>oa. Inr (oa - fee))
          else getitem (tx_inputsAmount tx)) = Inr input_total"
      and oa: "tx_outputsAmount tx = Some output_total"
      and t: "t = t0\<lparr>
       t_status := (if confirmations = 0 then ''unconfirmed'' else ''confirmed''),
       t_hash := txId,
       t_date := (case tx_timestamp tx of
                    Some ts \<Rightarrow> Some ts
                  | None \<Rightarrow> (case tx_blockTime tx of Some bt \<Rightarrow> Some bt | None \<Rightarrow> t_date t0)),
       t_confirmations := confirmations,
       t_block_height := block_height,
       t_block_hash := block_hash,
       t_fee := Some fee,
       t_rawtx := rawTx,
       t_size := size,
       t_network := network,
       t_inputs := inputs,
       t_outputs := outputs,
       t_input_total := input_total,
       t_output_total := output_total\<rparr>"
    by (rule parse_transaction_Inr)
  have sel: "t_coinbase t = t_coinbase t0" "t_input_total t = input_total" "t_inputs t = inputs"
    by (simp_all add: t)
  have "if t_coinbase t0
        then t_input_total t = output_total - fee \<and> t_inputs t = t_inputs t0 \<and>
             (\<forall>v. parse_transaction import_raw network (tx\<lparr>tx_vIn := v\<rparr>) = Inr t)
        else tx_inputsAmount tx = Some (t_input_total t) \<and>
             list_all2 (\<lambda>i i'. \<exists>vIn entry a. tx_vIn tx = Some vIn \<and>
                 map_of vIn (i_index_n i) = Some entry \<and> vin_amount entry = Some a \<and>
                 i' = i\<lparr>i_value := a\<rparr>) (t_inputs t0) (t_inputs t)"
  proof (cases "t_coinbase t0")
    case True
    with tot oa have "input_total = output_total - fee"
      by (simp add: and_then_def getitem_def)
    moreover from True ins have "inputs = t_inputs t0" by simp
    moreover have "parse_transaction import_raw network (tx\<lparr>tx_vIn := v\<rparr>) = Inr t" for v
      using parse_transaction_coinbase_vIn [of tx rawTx import_raw network t0 v] raw t0 True assms
      by simp
    ultimately show ?thesis using True sel by simp
  next
    case False
    with tot have "tx_inputsAmount tx = Some input_total" by (simp add: getitem_Inr)
    moreover from False ins have "input_values tx (t_inputs t0) = Inr inputs" by simp
    note input_values_Inr [OF this]
    ultimately show ?thesis using False sel by simp
  qed
  with raw t0 fee oa sel(1) show ?thesis by blast
qed

theorem parse_transaction_input_total_witness:
  "parse_transaction example_codec ''bitcoin'' coinbase_item =
     Inr \<lparr>t_status = ''unconfirmed'', t_hash = ''cb'', t_date = None,
          t_confirmations = 0, t_block_height = None, t_block_hash = None,
          t_fee = Some 0, t_rawtx = ''cb'', t_size = 100, t_network = ''bitcoin'',
          t_coinbase = True, t_inputs = [\<lparr>i_index_n = 0, i_value = 0\<rparr>],
          t_outputs = [\<lparr>o_output_n = 0, o_spent = True\<rparr>],
          t_input_total = 50, t_output_total = 50\<rparr> \<and>
   (\<exists>rawTx t0 fee output_total.
      tx_rawTx coinbase_item = Some rawTx \<and> example_codec rawTx ''bitcoin'' = Inr t0 \<and>
      tx_fee coinbase_item = Some fee \<and> tx_outputsAmount coinbase_item = Some output_total \<and>
      t_coinbase t0 \<and> fee = 0 \<and> output_total = 50 \<and> output_total - fee = 50)"
  using parse_transaction_input_total [OF example_parse_coinbase] example_parse_coinbase
  by (auto simp: coinbase_item_def example_codec_def)

section \<open>The two fetch loops as one pass over the items received\<close>

subsection \<open>After the last occurrence\<close>

lemma after_last_none: "\<not> list_ex P xs \<Longrightarrow> after_last P xs = xs"
  by (induction xs) auto

lemma after_last_rev: "after_last P xs = rev (takeWhile (\<lambda>x. \<not> P x) (rev xs))"
proof (induction xs)
  case Nil
  then show ?case by simp
next
  case (Cons x xs)
  show ?case
  proof (cases "list_ex P xs")
    case True
    then obtain y where "y \<in> set (rev xs)" "\<not> \<not> P y" by (auto simp: list_ex_iff)
    then have "takeWhile (\<lambda>x. \<not> P x) (rev xs @ [x]) = takeWhile (\<lambda>x. \<not> P x) (rev xs)"
      by (rule takeWhile_append1)
    with True Cons show ?thesis by simp
  next
    case False
    then have all: "\<forall>y\<in>set (rev xs). \<not> P y" by (auto simp: list_ex_iff)
    then have "takeWhile (\<lambda>x. \<not> P x) (rev xs @ [x])
        = rev xs @ takeWhile (\<lambda>x. \<not> P x) [x]"
      by (intro takeWhile_append2) auto
    with False show ?thesis by (simp add: after_last_none)
  qed
qed

lemma set_after_last: "set (after_last P xs) \<subseteq> set xs"
  by (induction xs) auto

subsection \<open>\<open>gettransactions\<close>\<close>

text \<open>
  One page, or any list of items: the result is what was collected before, unless the cursor
  occurs, followed by the parsed items after the cursor's last occurrence.
\<close>

lemma gettransactions_page_Inr:
  "gettransactions_page import_raw network after_txid items txs = Inr r \<Longrightarrow>
   \<exists>new. map (parse_transaction import_raw network)
            (after_last (\<lambda>tx. tx_txId tx = Some after_txid) items) = map Inr new \<and>
         r = (if list_ex (\<lambda>tx. tx_txId tx = Some after_txid) items then [] else txs) @ new"
proof (induction items arbitrary: txs)
  case Nil
  then show ?case by simp
next
  case (Cons tx rest)
  let ?P = "\<lambda>tx. tx_txId tx = Some after_txid"
  from Cons.prems obtain t txid where
    t: "parse_transaction import_raw network tx = Inr t"
    and txid: "tx_txId tx = Some txid"
    and rest: "gettransactions_page import_raw network after_txid rest
                 (if txid = after_txid then [] else txs @ [t]) = Inr r"
    by (auto split: sum.splits option.splits)
  from Cons.IH [OF rest] obtain new where
    new: "map (parse_transaction import_raw network) (after_last ?P rest) = map Inr new"
    and r: "r = (if list_ex ?P rest then []
                 else (if txid = after_txid then [] else txs @ [t])) @ new"
    by blast
  show ?case
  proof (cases "list_ex ?P rest")
    case True
    with new r show ?thesis by simp
  next
    case False
    then have al: "after_last ?P rest = rest" by (rule after_last_none)
    show ?thesis
    proof (cases "txid = after_txid")
      case True
      with False new r al txid show ?thesis by simp
    next
      case neq: False
      with False new r al txid t show ?thesis by simp
    qed
  qed
qed

lemma gettransactions_page_append:
  "gettransactions_page import_raw network after_txid (xs @ ys) txs =
     and_then (gettransactions_page import_raw network after_txid xs txs)
       (\<lambda>txs'. gettransactions_page import_raw network after_txid ys txs')"
  by (induction xs arbitrary: txs)
     (simp_all add: and_then_simps split: sum.splits option.splits)

lemma gettransactions_loop_Inr:
  "gettransactions_loop fuel request import_raw network address after_txid page txs
     = Some (log, Inr r) \<Longrightarrow>
   gettransactions_page import_raw network after_txid (encountered request address log) txs
     = Inr r"
proof (induction fuel arbitrary: page txs log)
  case 0
  then show ?case by simp
next
  case (Suc fuel)
  from Suc.prems obtain res l txs' pages where
    res: "request address page = Inr res"
    and l: "res_list res = Some l"
    and pg: "gettransactions_page import_raw network after_txid l txs = Inr txs'"
    and pages: "res_pages res = Some pages"
    by (auto simp: and_then_Inr getitem_Inr split: sum.splits option.splits if_splits)
  have items: "page_items request address page = l"
    by (simp add: page_items_def res l)
  show ?case
  proof (cases "page + 1 > pages")
    case True
    with Suc.prems res l pg pages have "log = [page]" "r = txs'"
      by (simp_all add: and_then_simps getitem_simps)
    with pg items show ?thesis by (simp add: encountered_def)
  next
    case False
    with Suc.prems res l pg pages obtain log' where
      rec: "gettransactions_loop fuel request import_raw network address after_txid
              (page + 1) txs' = Some (log', Inr r)"
      and log: "log = page # log'"
      by (auto simp: and_then_simps getitem_simps split: option.splits)
    from Suc.IH [OF rec] log items pg show ?thesis
      by (simp add: encountered_def gettransactions_page_append and_then_simps)
  qed
qed

lemma gettransactions_Inr:
  assumes "gettransactions fuel request import_raw network address after_txid max_txs
             = Some (log, Inr txs)"
  shows "\<exists>new. map (parse_transaction import_raw network)
            (after_last (\<lambda>tx. tx_txId tx = Some after_txid)
               (encountered request address log)) = map Inr new \<and>
         txs = slice_to new max_txs"
proof -
  from assms obtain r where
    loop: "gettransactions_loop fuel request import_raw network address after_txid 0 []
             = Some (log, Inr r)"
    and txs: "txs = slice_to r max_txs"
    by (auto simp: gettransactions_def split: option.splits sum.splits)
  from gettransactions_page_Inr [OF gettransactions_loop_Inr [OF loop]] txs
  show ?thesis by auto
qed


subsection \<open>\<open>getutxos\<close>\<close>

lemma getutxos_outputs_acc:
  "getutxos_outputs address tx vOut utxos =
     and_then (getutxos_outputs address tx vOut []) (\<lambda>new. Inr (utxos @ new))"
proof (induction vOut arbitrary: utxos)
  case Nil
  then show ?case by (simp add: and_then_simps)
next
  case (Cons kv rest)
  obtain outp utxo where kv: "kv = (outp, utxo)" by (cases kv)
  show ?case
  proof (cases "getutxos_output address tx outp utxo")
    case (Inl e)
    with kv show ?thesis by (simp add: and_then_simps)
  next
    case (Inr res)
    show ?thesis
    proof (cases res)
      case None
      with Inr kv Cons.IH [of utxos] show ?thesis by simp
    next
      case (Some u)
      have "getutxos_outputs address tx rest (utxos @ [u]) =
              and_then (getutxos_outputs address tx rest []) (\<lambda>new. Inr ((utxos @ [u]) @ new))"
        by (rule Cons.IH)
      moreover have "getutxos_outputs address tx rest [u] =
              and_then (getutxos_outputs address tx rest []) (\<lambda>new. Inr ([u] @ new))"
        by (rule Cons.IH)
      ultimately show ?thesis using Inr Some kv
        by (cases "getutxos_outputs address tx rest []") (simp_all add: and_then_simps)
    qed
  qed
qed

lemma getutxos_tx_step:
  "and_then (getitem (tx_vOut tx)) (\<lambda>vOut. getutxos_outputs address tx vOut utxos) = Inr r
     \<longleftrightarrow> (\<exists>new. tx_utxos address tx = Inr new \<and> r = utxos @ new)"
proof (cases "tx_vOut tx")
  case None
  then show ?thesis by (simp add: tx_utxos_def and_then_simps getitem_simps)
next
  case (Some vOut)
  show ?thesis
    using getutxos_outputs_acc [of address tx vOut utxos]
    by (cases "getutxos_outputs address tx vOut []")
       (auto simp: Some tx_utxos_def and_then_simps getitem_simps)
qed

lemma getutxos_page_Inr:
  "getutxos_page address after_txid items utxos = Inr r \<Longrightarrow>
   \<exists>new. map (tx_utxos address)
            (after_last (\<lambda>tx. tx_hash tx = Some after_txid) items) = map Inr new \<and>
         r = (if list_ex (\<lambda>tx. tx_hash tx = Some after_txid) items then [] else utxos)
               @ concat new"
proof (induction items arbitrary: utxos)
  case Nil
  then show ?case by simp
next
  case (Cons tx rest)
  let ?P = "\<lambda>tx. tx_hash tx = Some after_txid"
  from Cons.prems obtain utxos' h where
    step: "and_then (getitem (tx_vOut tx)) (\<lambda>vOut. getutxos_outputs address tx vOut utxos)
             = Inr utxos'"
    and h: "tx_hash tx = Some h"
    and rest: "getutxos_page address after_txid rest (if h = after_txid then [] else utxos')
                 = Inr r"
    by (auto split: sum.splits option.splits)
  from step obtain n where n: "tx_utxos address tx = Inr n" and utxos': "utxos' = utxos @ n"
    by (auto simp: getutxos_tx_step)
  from Cons.IH [OF rest] obtain new where
    new: "map (tx_utxos address) (after_last ?P rest) = map Inr new"
    and r: "r = (if list_ex ?P rest then []
                 else (if h = after_txid then [] else utxos')) @ concat new"
    by blast
  show ?case
  proof (cases "list_ex ?P rest")
    case True
    with new r show ?thesis by simp
  next
    case False
    then have al: "after_last ?P rest = rest" by (rule after_last_none)
    show ?thesis
    proof (cases "h = after_txid")
      case True
      with False new r al h show ?thesis by simp
    next
      case neq: False
      have "map (tx_utxos address) (after_last ?P (tx # rest)) = map Inr (n # new)"
        using n new al False neq h by simp
      moreover have "r = (if list_ex ?P (tx # rest) then [] else utxos) @ concat (n # new)"
        using r False neq utxos' h by simp
      ultimately show ?thesis by blast
    qed
  qed
qed

lemma getutxos_page_append:
  "getutxos_page address after_txid (xs @ ys) utxos =
     and_then (getutxos_page address after_txid xs utxos)
       (\<lambda>utxos'. getutxos_page address after_txid ys utxos')"
  by (induction xs arbitrary: utxos)
     (simp_all add: and_then_simps split: sum.splits option.splits)

lemma getutxos_loop_Inr:
  "getutxos_loop fuel request address after_txid page utxos = Some (log, Inr r) \<Longrightarrow>
   getutxos_page address after_txid (encountered request address log) utxos = Inr r"
proof (induction fuel arbitrary: page utxos log)
  case 0
  then show ?case by simp
next
  case (Suc fuel)
  from Suc.prems obtain res l utxos' pages where
    res: "request address page = Inr res"
    and l: "res_list res = Some l"
    and pg: "getutxos_page address after_txid l utxos = Inr utxos'"
    and pages: "res_pages res = Some pages"
    by (auto simp: and_then_Inr getitem_Inr split: sum.splits option.splits if_splits)
  have items: "page_items request address page = l"
    by (simp add: page_items_def res l)
  show ?case
  proof (cases "page + 1 > pages")
    case True
    with Suc.prems res l pg pages have "log = [page]" "r = utxos'"
      by (simp_all add: and_then_simps getitem_simps)
    with pg items show ?thesis by (simp add: encountered_def)
  next
    case False
    with Suc.prems res l pg pages obtain log' where
      rec: "getutxos_loop fuel request address after_txid (page + 1) utxos'
              = Some (log', Inr r)"
      and log: "log = page # log'"
      by (auto simp: and_then_simps getitem_simps split: option.splits)
    from Suc.IH [OF rec] log items pg show ?thesis
      by (simp add: encountered_def getutxos_page_append and_then_simps)
  qed
qed

lemma getutxos_Inr:
  assumes "getutxos fuel request address after_txid max_txs = Some (log, Inr utxos)"
  shows "\<exists>new. map (tx_utxos address)
            (after_last (\<lambda>tx. tx_hash tx = Some after_txid)
               (encountered request address log)) = map Inr new \<and>
         utxos = slice_to (concat new) max_txs"
proof -
  from assms obtain r where
    loop: "getutxos_loop fuel request address after_txid 1 [] = Some (log, Inr r)"
    and utxos: "utxos = slice_to r max_txs"
    by (auto simp: getutxos_def split: option.splits sum.splits)
  from getutxos_page_Inr [OF getutxos_loop_Inr [OF loop]] utxos
  show ?thesis by auto
qed

section \<open>The loops return when the page count is bounded\<close>





section \<open>The examples, evaluated\<close>

lemma parse_example_item:
  "txid \<noteq> [] \<Longrightarrow> txid \<noteq> ''cb'' \<Longrightarrow>
   parse_transaction example_codec ''bitcoin'' (example_item txid h) = Inr (example_tx txid)"
  by (simp add: parse_transaction_def example_codec_def example_item_def example_tx_def
      and_then_simps getitem_simps)

lemma tx_utxos_example_item:
  "tx_utxos ''addr1'' (example_item txid h) = Inr [example_utxo txid]"
  by (simp add: tx_utxos_def getutxos_output_def example_item_def example_utxo_def
      and_then_simps getitem_simps)

lemma getutxos_step_example_item:
  "and_then (getitem (tx_vOut (example_item txid h)))
     (\<lambda>vOut. getutxos_outputs ''addr1'' (example_item txid h) vOut utxos)
   = Inr (utxos @ [example_utxo txid])"
  by (simp add: getutxos_tx_step tx_utxos_example_item)

lemma example_item_ids:
  "tx_txId (example_item txid h) = Some txid" "tx_hash (example_item txid h) = Some h"
  by (simp_all add: example_item_def)

lemma gettransactions_example_B:
  "gettransactions 3 example_provider example_codec ''bitcoin'' ''addr1'' ''B'' 20
     = Some ([0, 1, 2], Inr [example_tx ''C'', example_tx ''D''])"
  by (simp add: gettransactions_def eval_nat_numeral example_provider_def and_then_simps
      getitem_simps parse_example_item example_item_ids slice_to_def)

lemma getutxos_example_B:
  "getutxos 3 example_provider ''addr1'' ''B'' 20
     = Some ([1, 2], Inr [example_utxo ''C'', example_utxo ''D''])"
  by (simp add: getutxos_def eval_nat_numeral example_provider_def and_then_simps
      getitem_simps getutxos_step_example_item example_item_ids slice_to_def)

lemma gettransactions_segwit_B:
  "gettransactions 3 segwit_provider example_codec ''bitcoin'' ''addr1'' ''B'' 20
     = Some ([0, 1], Inr [example_tx ''C''])"
  by (simp add: gettransactions_def eval_nat_numeral segwit_provider_def and_then_simps
      getitem_simps parse_example_item example_item_ids slice_to_def)

lemma getutxos_segwit_B:
  "getutxos 3 segwit_provider ''addr1'' ''B'' 20
     = Some ([1], Inr [example_utxo ''B'', example_utxo ''C''])"
  by (simp add: getutxos_def eval_nat_numeral segwit_provider_def and_then_simps
      getitem_simps getutxos_step_example_item example_item_ids slice_to_def)

lemma gettransactions_example_all:
  "gettransactions 3 example_provider example_codec ''bitcoin'' ''addr1'' [] max_txs
     = Some ([0, 1, 2], Inr (slice_to
         [example_tx ''A'', example_tx ''B'', example_tx ''C'', example_tx ''D''] max_txs))"
  by (simp add: gettransactions_def eval_nat_numeral example_provider_def and_then_simps
      getitem_simps parse_example_item example_item_ids)

lemma getutxos_example_all:
  "getutxos 3 example_provider ''addr1'' [] max_txs
     = Some ([1, 2], Inr (slice_to
         [example_utxo ''A'', example_utxo ''B'', example_utxo ''C'', example_utxo ''D'']
         max_txs))"
  by (simp add: getutxos_def eval_nat_numeral example_provider_def and_then_simps
      getitem_simps getutxos_step_example_item example_item_ids)




lemma getutxos_mixed:
  "getutxos 2 mixed_provider ''addr1'' [] 20 = Some ([1], Inr [example_utxo ''M''])"
  by (simp add: getutxos_def eval_nat_numeral mixed_provider_def mixed_item_def
      example_item_def example_utxo_def getutxos_output_def and_then_simps getitem_simps
      slice_to_def)


lemma mixed_encountered:
  "encountered mixed_provider ''addr1'' [1] = [mixed_item]"
  by (simp add: encountered_def page_items_def mixed_provider_def)






section \<open>The cursor and the item's id\<close>

text \<open>
  Claim C1. \<open>gettransactions\<close> empties its list at an item whose \<open>txId\<close> is the cursor
  (\<open>gettransactions_Inr\<close> above: the result is what comes after the cursor's last
  occurrence). \<open>getutxos\<close> names a transaction by its \<open>txId\<close> in the records it
  returns, but compares the cursor with the item's \<open>hash\<close>. For a segwit transaction the
  two differ. On a page \<open>[B, C]\<close> where \<open>B\<close> has \<open>txId = B\<close> and \<open>hash = wB\<close>, the call
  with the cursor \<open>B\<close> does not empty its list at \<open>B\<close>: it returns the output of \<open>B\<close>
  again, before that of \<open>C\<close>, where \<open>gettransactions\<close> returns \<open>C\<close> alone.
\<close>

theorem cursor_rule_segwit:
  "tx_txId (example_item ''B'' ''wB'') = Some ''B'' \<and>
   tx_hash (example_item ''B'' ''wB'') = Some ''wB'' \<and>
   encountered segwit_provider ''addr1'' [1]
     = [example_item ''B'' ''wB'', example_item ''C'' ''C''] \<and>
   getutxos 3 segwit_provider ''addr1'' ''B'' 20
     = Some ([1], Inr [example_utxo ''B'', example_utxo ''C'']) \<and>
   u_tx_hash (example_utxo ''B'') = ''B'' \<and>
   gettransactions 3 segwit_provider example_codec ''bitcoin'' ''addr1'' ''B'' 20
     = Some ([0, 1], Inr [example_tx ''C''])"
  by (simp add: getutxos_segwit_B gettransactions_segwit_B example_item_ids encountered_def
      page_items_def segwit_provider_def example_utxo_def)

section \<open>The pages requested\<close>









section \<open>The two loops side by side\<close>

text \<open>
  Claim C3. The two loops do not start at the same page and do not compare the same field.
  On the history \<open>[A, B], [C, D]\<close> without a cursor, \<open>gettransactions\<close> requests the pages
  0, 1 and 2 and \<open>getutxos\<close> the pages 1 and 2. On the page \<open>[B, C]\<close> with the segwit
  transaction \<open>B\<close> and the cursor \<open>B\<close>, \<open>gettransactions\<close> discards \<open>B\<close> and
  \<open>getutxos\<close> keeps it.
\<close>

theorem loops_not_mirrored:
  "gettransactions 3 example_provider example_codec ''bitcoin'' ''addr1'' [] 20
     = Some ([0, 1, 2],
         Inr [example_tx ''A'', example_tx ''B'', example_tx ''C'', example_tx ''D'']) \<and>
   getutxos 3 example_provider ''addr1'' [] 20
     = Some ([1, 2],
         Inr [example_utxo ''A'', example_utxo ''B'', example_utxo ''C'', example_utxo ''D'']) \<and>
   gettransactions 3 segwit_provider example_codec ''bitcoin'' ''addr1'' ''B'' 20
     = Some ([0, 1], Inr [example_tx ''C'']) \<and>
   getutxos 3 segwit_provider ''addr1'' ''B'' 20
     = Some ([1], Inr [example_utxo ''B'', example_utxo ''C''])"
  by (simp add: gettransactions_example_all getutxos_example_all gettransactions_segwit_B
      getutxos_segwit_B slice_to_def)

section \<open>What \<open>getutxos\<close> keeps\<close>

lemma set_slice_to: "set (slice_to xs n) \<subseteq> set xs"
  by (auto simp: slice_to_def dest: in_set_takeD)

lemma map_eq_map_Inr:
  "map f xs = map Inr new \<Longrightarrow> n \<in> set new \<Longrightarrow> \<exists>x\<in>set xs. f x = Inr n"
proof (induction xs arbitrary: new)
  case Nil
  then show ?case by simp
next
  case (Cons x xs)
  then show ?case by (cases new) auto
qed

lemma getutxos_output_Some:
  assumes "getutxos_output address tx outp utxo = Inr (Some u)"
  shows "utxo_address utxo = Some address \<and> utxo_spent utxo = Some False \<and>
         u_address u = address \<and> u_output_n u = outp \<and>
         u_input_n u = 0 \<and> u_fee u = None \<and> u_size u = 0 \<and>
         tx_txId tx = Some (u_tx_hash u) \<and> utxo_value utxo = Some (u_value u)"
proof (cases "utxo_address utxo")
  case None
  with assms show ?thesis by (simp add: getutxos_output_def)
next
  case (Some a)
  show ?thesis
  proof (cases "a = address")
    case False
    with Some assms show ?thesis by (simp add: getutxos_output_def)
  next
    case True
    show ?thesis
    proof (cases "utxo_spent utxo")
      case None
      with Some True assms show ?thesis
        by (simp add: getutxos_output_def and_then_simps getitem_simps)
    next
      case sp: (Some spent)
      show ?thesis
      proof (cases spent)
        case True
        with sp Some \<open>a = address\<close> assms show ?thesis
          by (simp add: getutxos_output_def and_then_simps getitem_simps)
      next
        case False
        with sp Some \<open>a = address\<close> assms
        have "and_then (getitem (tx_txId tx)) (\<lambda>txId.
                and_then (getitem (tx_confirmations tx)) (\<lambda>confirmations.
                and_then (getitem (tx_blockHeight tx)) (\<lambda>blockHeight.
                and_then (getitem (utxo_value utxo)) (\<lambda>v.
                and_then (getitem (utxo_scriptPubKey utxo)) (\<lambda>script.
                and_then (getitem (tx_timestamp tx)) (\<lambda>timestamp.
                Inr (Some \<lparr>
                  u_address = address,
                  u_tx_hash = txId,
                  u_confirmations = confirmations,
                  u_output_n = outp,
                  u_input_n = 0,
                  u_block_height = blockHeight,
                  u_fee = None,
                  u_size = 0,
                  u_value = v,
                  u_script = script,
                  u_date = timestamp\<rparr>))))))) = Inr (Some u)"
          by (simp add: getutxos_output_def and_then_simps getitem_simps)
        then obtain txId confirmations blockHeight v script timestamp where
          "tx_txId tx = Some txId" "utxo_value utxo = Some v"
          "u = \<lparr>u_address = address, u_tx_hash = txId, u_confirmations = confirmations,
                u_output_n = outp, u_input_n = 0, u_block_height = blockHeight,
                u_fee = None, u_size = 0, u_value = v, u_script = script,
                u_date = timestamp\<rparr>"
          unfolding and_then_Inr getitem_Inr by auto
        with sp Some \<open>a = address\<close> False show ?thesis by simp
      qed
    qed
  qed
qed


lemma getutxos_output_skip:
  "utxo_address utxo \<noteq> Some address \<or> utxo_spent utxo = Some True \<Longrightarrow>
   getutxos_output address tx outp utxo = Inr None"
  by (cases "utxo_address utxo")
     (auto simp: getutxos_output_def and_then_simps getitem_simps)

lemma getutxos_outputs_set:
  "getutxos_outputs address tx vOut utxos = Inr r \<Longrightarrow> u \<in> set r \<Longrightarrow>
   u \<in> set utxos \<or>
   (\<exists>outp utxo. (outp, utxo) \<in> set vOut \<and>
      getutxos_output address tx outp utxo = Inr (Some u))"
proof (induction vOut arbitrary: utxos)
  case Nil
  then show ?case by simp
next
  case (Cons kv rest)
  obtain outp utxo where kv: "kv = (outp, utxo)" by (cases kv)
  show ?case
  proof (cases "getutxos_output address tx outp utxo")
    case (Inl e)
    with Cons.prems(1) kv show ?thesis by simp
  next
    case (Inr res)
    show ?thesis
    proof (cases res)
      case None
      with Inr kv Cons.prems(1) have "getutxos_outputs address tx rest utxos = Inr r"
        by simp
      from Cons.IH [OF this Cons.prems(2)] kv show ?thesis by auto
    next
      case (Some u')
      with Inr kv Cons.prems(1) have "getutxos_outputs address tx rest (utxos @ [u']) = Inr r"
        by simp
      from Cons.IH [OF this Cons.prems(2)] kv Inr Some show ?thesis by auto
    qed
  qed
qed

lemma tx_utxos_set:
  assumes "tx_utxos address tx = Inr n" and "u \<in> set n"
  shows "\<exists>vOut outp utxo. tx_vOut tx = Some vOut \<and> (outp, utxo) \<in> set vOut \<and>
           getutxos_output address tx outp utxo = Inr (Some u)"
proof -
  from assms(1) obtain vOut where vOut: "tx_vOut tx = Some vOut"
    and outs: "getutxos_outputs address tx vOut [] = Inr n"
    by (auto simp: tx_utxos_def and_then_Inr getitem_Inr)
  from getutxos_outputs_set [OF outs assms(2)] vOut show ?thesis by auto
qed

lemma getutxos_origin:
  assumes "getutxos fuel request address after_txid max_txs = Some (log, Inr utxos)"
    and "u \<in> set utxos"
  shows "\<exists>tx vOut outp utxo. tx \<in> set (encountered request address log) \<and>
           tx_vOut tx = Some vOut \<and> (outp, utxo) \<in> set vOut \<and>
           getutxos_output address tx outp utxo = Inr (Some u)"
proof -
  let ?items = "after_last (\<lambda>tx. tx_hash tx = Some after_txid)
                  (encountered request address log)"
  from getutxos_Inr [OF assms(1)] obtain new where
    new: "map (tx_utxos address) ?items = map Inr new"
    and utxos: "utxos = slice_to (concat new) max_txs"
    by blast
  from assms(2) utxos set_slice_to [of "concat new" max_txs] have "u \<in> set (concat new)"
    by blast
  then obtain n where n: "n \<in> set new" "u \<in> set n" by auto
  from map_eq_map_Inr [OF new n(1)] obtain tx where
    tx: "tx \<in> set ?items" "tx_utxos address tx = Inr n"
    by blast
  from tx(1) set_after_last [of "\<lambda>tx. tx_hash tx = Some after_txid"
      "encountered request address log"]
  have mem: "tx \<in> set (encountered request address log)" by blast
  from tx_utxos_set [OF tx(2) n(2)] obtain vOut outp utxo where
    "tx_vOut tx = Some vOut" "(outp, utxo) \<in> set vOut"
    "getutxos_output address tx outp utxo = Inr (Some u)"
    by blast
  with mem show ?thesis by blast
qed

text \<open>
  Claim C6. Every record \<open>getutxos\<close> returns carries the queried address and was made from
  an output of an item received, at the record's output index and in the transaction the
  record names, whose \<open>address\<close> key is present and equal to the queried address and whose
  \<open>spent\<close> flag is false. An output that is spent, or has no \<open>address\<close> key, or has
  another address, is passed over: nothing is appended for it.
\<close>

theorem getutxos_filter:
  "(getutxos fuel request address after_txid max_txs = Some (log, Inr utxos) \<longrightarrow>
      list_all (\<lambda>u. u_address u = address \<and>
        (\<exists>tx vOut outp utxo.
           tx \<in> set (encountered request address log) \<and> tx_vOut tx = Some vOut \<and>
           (outp, utxo) \<in> set vOut \<and> u_output_n u = outp \<and>
           tx_txId tx = Some (u_tx_hash u) \<and>
           utxo_address utxo = Some address \<and> utxo_spent utxo = Some False)) utxos) \<and>
   (utxo_spent utxo = Some True \<or> utxo_address utxo = None \<or>
    utxo_address utxo \<noteq> Some address \<longrightarrow>
      getutxos_output address tx outp utxo = Inr None \<and>
      getutxos_outputs address tx ((outp, utxo) # rest) acc
        = getutxos_outputs address tx rest acc)"
proof (intro conjI impI)
  assume res: "getutxos fuel request address after_txid max_txs = Some (log, Inr utxos)"
  show "list_all (\<lambda>u. u_address u = address \<and>
        (\<exists>tx vOut outp utxo.
           tx \<in> set (encountered request address log) \<and> tx_vOut tx = Some vOut \<and>
           (outp, utxo) \<in> set vOut \<and> u_output_n u = outp \<and>
           tx_txId tx = Some (u_tx_hash u) \<and>
           utxo_address utxo = Some address \<and> utxo_spent utxo = Some False)) utxos"
    unfolding list_all_iff
  proof
    fix u assume "u \<in> set utxos"
    from getutxos_origin [OF res this] obtain tx vOut outp utxo where
      o: "tx \<in> set (encountered request address log)" "tx_vOut tx = Some vOut"
         "(outp, utxo) \<in> set vOut"
         "getutxos_output address tx outp utxo = Inr (Some u)"
      by blast
    from getutxos_output_Some [OF o(4)] o(1-3)
    show "u_address u = address \<and>
        (\<exists>tx vOut outp utxo.
           tx \<in> set (encountered request address log) \<and> tx_vOut tx = Some vOut \<and>
           (outp, utxo) \<in> set vOut \<and> u_output_n u = outp \<and>
           tx_txId tx = Some (u_tx_hash u) \<and>
           utxo_address utxo = Some address \<and> utxo_spent utxo = Some False)"
      by blast
  qed
next
  assume "utxo_spent utxo = Some True \<or> utxo_address utxo = None \<or>
    utxo_address utxo \<noteq> Some address"
  then have "utxo_address utxo \<noteq> Some address \<or> utxo_spent utxo = Some True" by auto
  then show skip: "getutxos_output address tx outp utxo = Inr None"
    by (rule getutxos_output_skip)
  then show "getutxos_outputs address tx ((outp, utxo) # rest) acc
        = getutxos_outputs address tx rest acc"
    by simp
qed

theorem getutxos_filter_witness:
  "getutxos 2 mixed_provider ''addr1'' [] 20 = Some ([1], Inr [example_utxo ''M'']) \<and>
   tx_vOut mixed_item = Some [
       (0, \<lparr>utxo_address = Some ''addr1'', utxo_spent = Some False,
            utxo_value = Some 50, utxo_scriptPubKey = Some ''76a9''\<rparr>),
       (1, \<lparr>utxo_address = Some ''addr1'', utxo_spent = Some True,
            utxo_value = Some 7, utxo_scriptPubKey = Some ''76a9''\<rparr>),
       (2, \<lparr>utxo_address = None, utxo_spent = Some False,
            utxo_value = Some 0, utxo_scriptPubKey = Some ''6a''\<rparr>),
       (3, \<lparr>utxo_address = Some ''addr2'', utxo_spent = Some False,
            utxo_value = Some 9, utxo_scriptPubKey = Some ''76a9''\<rparr>)] \<and>
   list_all (\<lambda>u. u_address u = ''addr1'' \<and>
        (\<exists>tx vOut outp utxo.
           tx \<in> set (encountered mixed_provider ''addr1'' [1]) \<and> tx_vOut tx = Some vOut \<and>
           (outp, utxo) \<in> set vOut \<and> u_output_n u = outp \<and>
           tx_txId tx = Some (u_tx_hash u) \<and>
           utxo_address utxo = Some ''addr1'' \<and> utxo_spent utxo = Some False))
     [example_utxo ''M''] \<and>
   u_address (example_utxo ''M'') = ''addr1'' \<and> u_output_n (example_utxo ''M'') = 0 \<and>
   getutxos_output ''addr1'' mixed_item 1
     \<lparr>utxo_address = Some ''addr1'', utxo_spent = Some True,
      utxo_value = Some 7, utxo_scriptPubKey = Some ''76a9''\<rparr> = Inr None \<and>
   getutxos_output ''addr1'' mixed_item 2
     \<lparr>utxo_address = None, utxo_spent = Some False,
      utxo_value = Some 0, utxo_scriptPubKey = Some ''6a''\<rparr> = Inr None \<and>
   getutxos_output ''addr1'' mixed_item 3
     \<lparr>utxo_address = Some ''addr2'', utxo_spent = Some False,
      utxo_value = Some 9, utxo_scriptPubKey = Some ''76a9''\<rparr> = Inr None"
proof -
  have vout: "tx_vOut mixed_item = Some [
       (0, \<lparr>utxo_address = Some ''addr1'', utxo_spent = Some False,
            utxo_value = Some 50, utxo_scriptPubKey = Some ''76a9''\<rparr>),
       (1, \<lparr>utxo_address = Some ''addr1'', utxo_spent = Some True,
            utxo_value = Some 7, utxo_scriptPubKey = Some ''76a9''\<rparr>),
       (2, \<lparr>utxo_address = None, utxo_spent = Some False,
            utxo_value = Some 0, utxo_scriptPubKey = Some ''6a''\<rparr>),
       (3, \<lparr>utxo_address = Some ''addr2'', utxo_spent = Some False,
            utxo_value = Some 9, utxo_scriptPubKey = Some ''76a9''\<rparr>)]"
    by (simp add: mixed_item_def)
  have u: "u_address (example_utxo ''M'') = ''addr1''" "u_output_n (example_utxo ''M'') = 0"
    by (simp_all add: example_utxo_def)
  have s1: "getutxos_output ''addr1'' mixed_item 1
     \<lparr>utxo_address = Some ''addr1'', utxo_spent = Some True,
      utxo_value = Some 7, utxo_scriptPubKey = Some ''76a9''\<rparr> = Inr None"
    using getutxos_filter [of 2 mixed_provider "''addr1''" "[]" 20 "[1]" "[example_utxo ''M'']"
        "\<lparr>utxo_address = Some ''addr1'', utxo_spent = Some True,
          utxo_value = Some 7, utxo_scriptPubKey = Some ''76a9''\<rparr>" mixed_item 1 "[]" "[]"]
    by simp
  have s2: "getutxos_output ''addr1'' mixed_item 2
     \<lparr>utxo_address = None, utxo_spent = Some False,
      utxo_value = Some 0, utxo_scriptPubKey = Some ''6a''\<rparr> = Inr None"
    using getutxos_filter [of 2 mixed_provider "''addr1''" "[]" 20 "[1]" "[example_utxo ''M'']"
        "\<lparr>utxo_address = None, utxo_spent = Some False,
          utxo_value = Some 0, utxo_scriptPubKey = Some ''6a''\<rparr>" mixed_item 2 "[]" "[]"]
    by simp
  have s3: "getutxos_output ''addr1'' mixed_item 3
     \<lparr>utxo_address = Some ''addr2'', utxo_spent = Some False,
      utxo_value = Some 9, utxo_scriptPubKey = Some ''76a9''\<rparr> = Inr None"
    using getutxos_filter [of 2 mixed_provider "''addr1''" "[]" 20 "[1]" "[example_utxo ''M'']"
        "\<lparr>utxo_address = Some ''addr2'', utxo_spent = Some False,
          utxo_value = Some 9, utxo_scriptPubKey = Some ''76a9''\<rparr>" mixed_item 3 "[]" "[]"]
    by simp
  have kept: "list_all (\<lambda>u. u_address u = ''addr1'' \<and>
        (\<exists>tx vOut outp utxo.
           tx \<in> set (encountered mixed_provider ''addr1'' [1]) \<and> tx_vOut tx = Some vOut \<and>
           (outp, utxo) \<in> set vOut \<and> u_output_n u = outp \<and>
           tx_txId tx = Some (u_tx_hash u) \<and>
           utxo_address utxo = Some ''addr1'' \<and> utxo_spent utxo = Some False))
     [example_utxo ''M'']"
    using getutxos_filter [of 2 mixed_provider "''addr1''" "[]" 20 "[1]" "[example_utxo ''M'']"]
      getutxos_mixed
    by blast
  from getutxos_mixed vout kept u s1 s2 s3 show ?thesis by blast
qed

text \<open>
  Claim C7. Every record \<open>getutxos\<close> returns has \<open>input_n = 0\<close>, \<open>fee = None\<close> and
  \<open>size = 0\<close>; and what is made of an output does not depend on the item's \<open>fee\<close>,
  \<open>size\<close>, \<open>vIn\<close>, \<open>inputsAmount\<close> and \<open>outputsAmount\<close>. In the example the items carry
  the fee 10 and the size 200.
\<close>

theorem getutxos_unset_fields:
  "(getutxos fuel request address after_txid max_txs = Some (log, Inr utxos) \<longrightarrow>
      list_all (\<lambda>u. u_input_n u = 0 \<and> u_fee u = None \<and> u_size u = 0) utxos) \<and>
   getutxos_output address (tx\<lparr>tx_fee := f, tx_size := s, tx_vIn := v,
        tx_inputsAmount := ia, tx_outputsAmount := oa\<rparr>) outp utxo
     = getutxos_output address tx outp utxo"
proof (intro conjI impI)
  assume res: "getutxos fuel request address after_txid max_txs = Some (log, Inr utxos)"
  show "list_all (\<lambda>u. u_input_n u = 0 \<and> u_fee u = None \<and> u_size u = 0) utxos"
    unfolding list_all_iff
  proof
    fix u assume "u \<in> set utxos"
    from getutxos_origin [OF res this] obtain tx vOut outp utxo where
      "getutxos_output address tx outp utxo = Inr (Some u)"
      by blast
    from getutxos_output_Some [OF this]
    show "u_input_n u = 0 \<and> u_fee u = None \<and> u_size u = 0" by blast
  qed
next
  show "getutxos_output address (tx\<lparr>tx_fee := f, tx_size := s, tx_vIn := v,
        tx_inputsAmount := ia, tx_outputsAmount := oa\<rparr>) outp utxo
     = getutxos_output address tx outp utxo"
    by (simp add: getutxos_output_def cong: option.case_cong if_cong)
qed

theorem getutxos_unset_fields_witness:
  "getutxos 3 example_provider ''addr1'' ''B'' 20
     = Some ([1, 2], Inr [example_utxo ''C'', example_utxo ''D'']) \<and>
   tx_fee (example_item ''C'' ''C'') = Some 10 \<and> tx_size (example_item ''C'' ''C'') = Some 200 \<and>
   list_all (\<lambda>u. u_input_n u = 0 \<and> u_fee u = None \<and> u_size u = 0)
     [example_utxo ''C'', example_utxo ''D'']"
  using getutxos_unset_fields [of 3 example_provider "''addr1''" "''B''" 20 "[1, 2]"
      "[example_utxo ''C'', example_utxo ''D'']"]
    getutxos_example_B
  by (simp add: example_item_def)

section \<open>Truncation\<close>










section \<open>The enumerated columns of the store\<close>








end
